theory Spec2Isabelle
  imports Main "HOL-Library.Word"
begin

section \<open>The pipe stream of mordor/common/streams/pipe.cpp\<close>

text \<open>
  Two \<open>PipeStream\<close> objects are linked by weak pointers and share one mutex. Every method
  body is one critical section under that mutex, so a method call is modelled as one atomic
  step on the state of the pair. A call of \<open>read\<close>, \<open>write\<close> or \<open>flush\<close> that registers the
  calling fiber and yields is the outcome \<open>Yield\<close>: after it is resumed the fiber runs the
  same method again (the recursion in \<open>read\<close>, the \<open>while (true)\<close> in \<open>write\<close> and \<open>flush\<close>),
  which is a further step of the same function on the state found then.

  \<open>size_t\<close> values are modelled as \<open>nat\<close>. The width of \<open>size_t\<close> belongs to the
  platform: its largest value \<open>SIZE_MAX\<close> is the parameter \<open>size_max\<close> of \<open>write\<close>, whose
  sum \<open>readAvailable() + len\<close> wraps around at \<open>size_max + 1\<close> as the addition of two
  \<open>size_t\<close> values does.
\<close>

subsection \<open>Collaborators\<close>

type_synonym byte = "8 word"

text \<open>
  Modelled from the spec: the \<open>Buffer\<close> class (mordor/common/streams/buffer.h is not part of
  the sources). A buffer is the sequence of its readable bytes; \<open>readAvailable\<close> reports their
  number, \<open>copyIn\<close> appends a bounded range of another buffer, \<open>consume\<close> discards a count
  from the front.
\<close>

type_synonym Buffer = "byte list"

definition readAvailable :: "Buffer \<Rightarrow> nat" where
  "readAvailable buf = length buf"

definition copyIn :: "Buffer \<Rightarrow> Buffer \<Rightarrow> nat \<Rightarrow> Buffer" where
  "copyIn dst src len = dst @ take len src"

definition consume :: "Buffer \<Rightarrow> nat \<Rightarrow> Buffer" where
  "consume buf len = drop len buf"

text \<open>
  Modelled from the spec: the \<open>CloseType\<close> enumeration of the stream interface
  (mordor/common/streams/stream.h is not part of the sources), a bitmask with the values
  None, Read, Write and Both. \<open>includesRead c\<close> is \<open>c & READ\<close>, \<open>includesWrite c\<close> is
  \<open>c & WRITE\<close> and \<open>closeOr a b\<close> is \<open>a | b\<close>.
\<close>

datatype CloseType = NONE | READ | WRITE | BOTH

fun includesRead :: "CloseType \<Rightarrow> bool" where
  "includesRead NONE = False"
| "includesRead READ = True"
| "includesRead WRITE = False"
| "includesRead BOTH = True"

fun includesWrite :: "CloseType \<Rightarrow> bool" where
  "includesWrite NONE = False"
| "includesWrite READ = False"
| "includesWrite WRITE = True"
| "includesWrite BOTH = True"

definition fromBits :: "bool \<Rightarrow> bool \<Rightarrow> CloseType" where
  "fromBits r w = (if r then (if w then BOTH else READ) else (if w then WRITE else NONE))"

definition closeOr :: "CloseType \<Rightarrow> CloseType \<Rightarrow> CloseType" where
  "closeOr a b = fromBits (includesRead a \<or> includesRead b) (includesWrite a \<or> includesWrite b)"

text \<open>
  Fibers and schedulers are identities only. A \<open>Scheduler *\<close> member is not initialised by
  the constructor.
\<close>

type_synonym fiber = nat

datatype Scheduler_ptr = Uninitialised | Scheduler nat

text \<open>The two objects of a pair: \<open>result.first\<close> and \<open>result.second\<close>.\<close>

datatype endpoint = First | Second

fun other :: "endpoint \<Rightarrow> endpoint" where
  "other First = Second"
| "other Second = First"

text \<open>
  What a critical section does to the scheduler and to the pending slots, in program order:
  \<open>Schedule sch f\<close> is the call \<open>sch->schedule(f)\<close>, the other two are the calls
  \<open>m_pendingReader.reset()\<close> and \<open>m_pendingWriter.reset()\<close> on the named endpoint.
\<close>

datatype event =
    Schedule Scheduler_ptr fiber
  | ResetPendingReader endpoint
  | ResetPendingWriter endpoint

subsection \<open>The objects\<close>

text \<open>
  \<open>alive\<close> is not a member: it says that the object still exists, so that the peer's
  \<open>m_otherStream.expired()\<close> is \<open>\<not> alive\<close> of this object.
\<close>

record PipeStream =
  alive :: bool
  m_readBuffer :: Buffer
  m_bufferSize :: nat
  m_closed :: CloseType
  m_otherClosed :: CloseType
  m_pendingWriterScheduler :: Scheduler_ptr
  m_pendingReaderScheduler :: Scheduler_ptr
  m_pendingWriter :: "fiber option"
  m_pendingReader :: "fiber option"

record pipe =
  first :: PipeStream
  second :: PipeStream
  events :: "event list"

definition stream :: "pipe \<Rightarrow> endpoint \<Rightarrow> PipeStream" where
  "stream s e = (case e of First \<Rightarrow> first s | Second \<Rightarrow> second s)"

definition update :: "endpoint \<Rightarrow> (PipeStream \<Rightarrow> PipeStream) \<Rightarrow> pipe \<Rightarrow> pipe" where
  "update e g s = (case e of First \<Rightarrow> s\<lparr>first := g (first s)\<rparr>
                           | Second \<Rightarrow> s\<lparr>second := g (second s)\<rparr>)"

datatype exn = BadHandleException | BrokenPipeException | bad_weak_ptr

datatype 'a outcome = Returned 'a | Threw exn | AssertFailed | Yield

subsection \<open>Construction\<close>

definition PipeStream_new :: "nat \<Rightarrow> PipeStream" where
  "PipeStream_new bufferSize =
     \<lparr>alive = True, m_readBuffer = [], m_bufferSize = bufferSize,
      m_closed = NONE, m_otherClosed = NONE,
      m_pendingWriterScheduler = Uninitialised, m_pendingReaderScheduler = Uninitialised,
      m_pendingWriter = None, m_pendingReader = None\<rparr>"

text \<open>\<open>~0u\<close>: all 32 bits of an \<open>unsigned int\<close> set, converted to \<open>size_t\<close>.\<close>

definition unspecified :: nat where
  "unspecified = 4294967295"

definition pipeStream :: "nat \<Rightarrow> pipe" where
  "pipeStream bufferSize =
     (let bufferSize = (if bufferSize = unspecified then 65536 else bufferSize)
      in \<lparr>first = PipeStream_new bufferSize, second = PipeStream_new bufferSize, events = []\<rparr>)"

subsection \<open>Waking a pending fiber\<close>

definition schedule :: "Scheduler_ptr \<Rightarrow> fiber \<Rightarrow> pipe \<Rightarrow> pipe" where
  "schedule sch f s = s\<lparr>events := events s @ [Schedule sch f]\<rparr>"

definition resetPendingReader :: "endpoint \<Rightarrow> pipe \<Rightarrow> pipe" where
  "resetPendingReader e s =
     (update e (\<lambda>r. r\<lparr>m_pendingReader := None\<rparr>) s)\<lparr>events := events s @ [ResetPendingReader e]\<rparr>"

definition resetPendingWriter :: "endpoint \<Rightarrow> pipe \<Rightarrow> pipe" where
  "resetPendingWriter e s =
     (update e (\<lambda>r. r\<lparr>m_pendingWriter := None\<rparr>) s)\<lparr>events := events s @ [ResetPendingWriter e]\<rparr>"

text \<open>
  The two statements \<open>m_pendingReaderScheduler->schedule(m_pendingReader);
  m_pendingReader.reset();\<close> of endpoint \<open>e\<close>, and the same for the writer slot.
\<close>

definition scheduleAndResetReader :: "endpoint \<Rightarrow> pipe \<Rightarrow> pipe" where
  "scheduleAndResetReader e s =
     (case m_pendingReader (stream s e) of
        None \<Rightarrow> s
      | Some f \<Rightarrow> resetPendingReader e (schedule (m_pendingReaderScheduler (stream s e)) f s))"

definition scheduleAndResetWriter :: "endpoint \<Rightarrow> pipe \<Rightarrow> pipe" where
  "scheduleAndResetWriter e s =
     (case m_pendingWriter (stream s e) of
        None \<Rightarrow> s
      | Some f \<Rightarrow> resetPendingWriter e (schedule (m_pendingWriterScheduler (stream s e)) f s))"

subsection \<open>Destruction and close\<close>

text \<open>
  \<open>~PipeStream\<close> of endpoint \<open>e\<close>. The weak pointer of the peer has expired when the
  destructor runs. A failed \<open>ASSERT\<close> ends the program; the state is returned as it was.
\<close>

definition destroy :: "endpoint \<Rightarrow> pipe \<Rightarrow> unit outcome \<times> pipe" where
  "destroy e s =
     (let otherStream = stream s (other e) in
      if alive otherStream \<and> m_pendingReader otherStream \<noteq> None then (AssertFailed, s)
      else if alive otherStream \<and> m_pendingWriter otherStream \<noteq> None then (AssertFailed, s)
      else (Returned (),
            scheduleAndResetWriter e
              (scheduleAndResetReader e (update e (\<lambda>r. r\<lparr>alive := False\<rparr>) s))))"

definition close :: "endpoint \<Rightarrow> CloseType \<Rightarrow> pipe \<Rightarrow> pipe" where
  "close e type s =
     (let s1 = update e (\<lambda>r. r\<lparr>m_closed := closeOr (m_closed r) type\<rparr>) s;
          s2 = (if alive (stream s1 (other e))
                then update (other e) (\<lambda>r. r\<lparr>m_otherClosed := m_closed (stream s1 e)\<rparr>) s1
                else s1);
          s3 = (if m_pendingReader (stream s2 e) \<noteq> None \<and> includesWrite (m_closed (stream s2 e))
                then scheduleAndResetReader e s2 else s2);
          s4 = (if m_pendingWriter (stream s3 e) \<noteq> None \<and> includesRead (m_closed (stream s3 e))
                then scheduleAndResetWriter e s3 else s3)
      in s4)"

subsection \<open>Read, write and flush\<close>

text \<open>
  \<open>read e f sch b len s\<close>: fiber \<open>f\<close> of scheduler \<open>sch\<close> calls \<open>read(b, len)\<close> on endpoint
  \<open>e\<close>. The result carries the returned count and the caller's buffer \<open>b\<close> after the call.
  Building \<open>otherStream\<close> from an expired weak pointer throws \<open>bad_weak_ptr\<close>.
\<close>

definition read ::
  "endpoint \<Rightarrow> fiber \<Rightarrow> nat \<Rightarrow> Buffer \<Rightarrow> nat \<Rightarrow> pipe \<Rightarrow> (nat \<times> Buffer) outcome \<times> pipe" where
  "read e f sch b len s =
     (let this = stream s e; otherStream = stream s (other e) in
      if includesRead (m_closed this) then (Threw BadHandleException, s)
      else if \<not> alive otherStream \<and> \<not> includesWrite (m_otherClosed this)
        then (Threw BrokenPipeException, s)
      else
        let avail = readAvailable (m_readBuffer this) in
        if avail > 0 then
          (let todo = min len avail;
               b' = copyIn b (m_readBuffer this) todo;
               s1 = update e (\<lambda>r. r\<lparr>m_readBuffer := consume (m_readBuffer r) todo\<rparr>) s;
               s2 = scheduleAndResetWriter e s1
           in (Returned (todo, b'), s2))
        else if includesWrite (m_otherClosed this) then (Returned (0, b), s)
        else if \<not> alive otherStream then (Threw bad_weak_ptr, s)
        else if m_pendingReader otherStream \<noteq> None then (AssertFailed, s)
        else (Yield,
              update (other e)
                (\<lambda>r. r\<lparr>m_pendingReader := Some f, m_pendingReaderScheduler := Scheduler sch\<rparr>) s))"

text \<open>
  \<open>write_stream size_max e f sch b len s\<close> (the method \<open>write\<close>; the name is taken in
  Isabelle), on a platform whose \<open>SIZE_MAX\<close> is \<open>size_max\<close>: fiber \<open>f\<close> of scheduler \<open>sch\<close> calls \<open>write(b, len)\<close> on endpoint
  \<open>e\<close>. The clamp of \<open>len\<close> precedes the loop in the source; \<open>m_bufferSize\<close> never changes,
  so clamping again on each pass gives the same \<open>len\<close>.
\<close>

definition write_stream ::
  "nat \<Rightarrow> endpoint \<Rightarrow> fiber \<Rightarrow> nat \<Rightarrow> Buffer \<Rightarrow> nat \<Rightarrow> pipe \<Rightarrow> nat outcome \<times> pipe" where
  "write_stream size_max e f sch b len s =
     (let this = stream s e; otherStream = stream s (other e);
          len = (if len > m_bufferSize this then m_bufferSize this else len) in
      if includesWrite (m_closed this) then (Threw BadHandleException, s)
      else if \<not> alive otherStream then (Threw BrokenPipeException, s)
      else if includesRead (m_closed otherStream) then (Threw BrokenPipeException, s)
      else if (readAvailable (m_readBuffer otherStream) + len) mod (size_max + 1)
                \<le> m_bufferSize this then
        (let s1 = update (other e) (\<lambda>r. r\<lparr>m_readBuffer := copyIn (m_readBuffer r) b len\<rparr>) s;
             s2 = (if m_pendingReader (stream s1 e) \<noteq> None
                   then scheduleAndResetReader e s1 else s1)
         in (Returned len, s2))
      else if m_pendingWriter otherStream \<noteq> None then (AssertFailed, s)
      else (Yield,
            update (other e)
              (\<lambda>r. r\<lparr>m_pendingWriter := Some f, m_pendingWriterScheduler := Scheduler sch\<rparr>) s))"

definition flush :: "endpoint \<Rightarrow> fiber \<Rightarrow> nat \<Rightarrow> pipe \<Rightarrow> unit outcome \<times> pipe" where
  "flush e f sch s =
     (let otherStream = stream s (other e) in
      if \<not> alive otherStream then (Threw BrokenPipeException, s)
      else if includesRead (m_closed otherStream) then (Threw BrokenPipeException, s)
      else if readAvailable (m_readBuffer otherStream) = 0 then (Returned (), s)
      else if m_pendingWriter otherStream \<noteq> None then (AssertFailed, s)
      else (Yield,
            update (other e)
              (\<lambda>r. r\<lparr>m_pendingWriter := Some f, m_pendingWriterScheduler := Scheduler sch\<rparr>) s))"

subsection \<open>Sequences of calls\<close>

text \<open>
  A program calls the methods in some order, on a platform whose \<open>SIZE_MAX\<close> is
  \<open>size_max\<close>. A method can be called only on an object that still exists, and a failed
  \<open>ASSERT\<close> ends the program: such a call has no successor state.
\<close>

datatype call =
    Read endpoint fiber nat Buffer nat
  | Write endpoint fiber nat Buffer nat
  | Flush endpoint fiber nat
  | Close endpoint CloseType
  | Destroy endpoint

fun target :: "call \<Rightarrow> endpoint" where
  "target (Read e f sch b len) = e"
| "target (Write e f sch b len) = e"
| "target (Flush e f sch) = e"
| "target (Close e type) = e"
| "target (Destroy e) = e"

definition continue :: "'a outcome \<times> pipe \<Rightarrow> pipe option" where
  "continue r = (case fst r of AssertFailed \<Rightarrow> None | _ \<Rightarrow> Some (snd r))"

fun invoke :: "nat \<Rightarrow> call \<Rightarrow> pipe \<Rightarrow> pipe option" where
  "invoke size_max (Read e f sch b len) s = continue (read e f sch b len s)"
| "invoke size_max (Write e f sch b len) s = continue (write_stream size_max e f sch b len s)"
| "invoke size_max (Flush e f sch) s = continue (flush e f sch s)"
| "invoke size_max (Close e type) s = Some (close e type s)"
| "invoke size_max (Destroy e) s = continue (destroy e s)"

definition perform :: "nat \<Rightarrow> call \<Rightarrow> pipe \<Rightarrow> pipe option" where
  "perform size_max c s = (if alive (stream s (target c)) then invoke size_max c s else None)"

fun run :: "nat \<Rightarrow> call list \<Rightarrow> pipe \<Rightarrow> pipe option" where
  "run size_max [] s = Some s"
| "run size_max (c # cs) s =
     (case perform size_max c s of None \<Rightarrow> None | Some s' \<Rightarrow> run size_max cs s')"

text \<open>
  The events a step has added. \<open>scheduleThenReset s evs\<close>: the events \<open>evs\<close> are wake-ups
  of fibers that were pending in state \<open>s\<close>, each one the call of \<open>schedule\<close> on the
  slot's scheduler and fiber, directly followed by the reset of that slot.
\<close>

definition added :: "pipe \<Rightarrow> pipe \<Rightarrow> event list" where
  "added s s' = drop (length (events s)) (events s')"

fun scheduleThenReset :: "pipe \<Rightarrow> event list \<Rightarrow> bool" where
  "scheduleThenReset s [] = True"
| "scheduleThenReset s (Schedule sch g # ResetPendingReader x # evs) =
     (m_pendingReader (stream s x) = Some g \<and> m_pendingReaderScheduler (stream s x) = sch \<and>
      scheduleThenReset s evs)"
| "scheduleThenReset s (Schedule sch g # ResetPendingWriter x # evs) =
     (m_pendingWriter (stream s x) = Some g \<and> m_pendingWriterScheduler (stream s x) = sch \<and>
      scheduleThenReset s evs)"
| "scheduleThenReset s evs = False"

text \<open>
  \<open>wokenInOrder s s'\<close>: the step from \<open>s\<close> to \<open>s'\<close> has kept the earlier events, has
  woken fibers by schedule-then-reset only, and every slot it has reset is empty in \<open>s'\<close>.
\<close>

definition wokenInOrder :: "pipe \<Rightarrow> pipe \<Rightarrow> bool" where
  "wokenInOrder s s' =
     (take (length (events s)) (events s') = events s \<and>
      scheduleThenReset s (added s s') \<and>
      (\<forall>x \<in> {First, Second}.
         (ResetPendingReader x \<in> set (added s s') \<longrightarrow> m_pendingReader (stream s' x) = None) \<and>
         (ResetPendingWriter x \<in> set (added s s') \<longrightarrow> m_pendingWriter (stream s' x) = None)))"

section \<open>Properties\<close>

subsection \<open>Auxiliary facts\<close>

lemmas buffer_defs = readAvailable_def copyIn_def consume_def

lemmas wake_defs = scheduleAndResetReader_def scheduleAndResetWriter_def
  resetPendingReader_def resetPendingWriter_def schedule_def

lemma other_neq [simp]: "other e \<noteq> e" "e \<noteq> other e"
  by (cases e; simp)+

lemma other_other [simp]: "other (other e) = e"
  by (cases e) simp_all

lemma stream_update [simp]:
  "stream (update e g s) x = (if x = e then g (stream s e) else stream s x)"
  by (cases e; cases x) (simp_all add: stream_def update_def)

lemma events_update [simp]: "events (update e g s) = events s"
  by (cases e) (simp_all add: update_def)

lemma stream_events_update [simp]: "stream (s\<lparr>events := ev\<rparr>) x = stream s x"
  by (cases x) (simp_all add: stream_def)

lemma stream_pipeStream [simp]:
  "stream (pipeStream n) e = PipeStream_new (if n = unspecified then 65536 else n)"
  by (cases e) (simp_all add: stream_def pipeStream_def Let_def)

lemma includes_closeOr [simp]:
  "includesRead (closeOr a b) = (includesRead a \<or> includesRead b)"
  "includesWrite (closeOr a b) = (includesWrite a \<or> includesWrite b)"
  by (simp_all add: closeOr_def fromBits_def)

text \<open>What the wake-up statements change.\<close>

lemma stream_scheduleAndResetReader [simp]:
  "stream (scheduleAndResetReader e s) x =
     (if x = e then (stream s e)\<lparr>m_pendingReader := None\<rparr> else stream s x)"
  by (simp add: wake_defs split: option.splits)

lemma stream_scheduleAndResetWriter [simp]:
  "stream (scheduleAndResetWriter e s) x =
     (if x = e then (stream s e)\<lparr>m_pendingWriter := None\<rparr> else stream s x)"
  by (simp add: wake_defs split: option.splits)

lemma events_scheduleAndResetReader:
  "events (scheduleAndResetReader e s) =
     events s @ (case m_pendingReader (stream s e) of None \<Rightarrow> []
                 | Some g \<Rightarrow> [Schedule (m_pendingReaderScheduler (stream s e)) g,
                              ResetPendingReader e])"
  by (simp add: wake_defs split: option.splits)

lemma events_scheduleAndResetWriter:
  "events (scheduleAndResetWriter e s) =
     events s @ (case m_pendingWriter (stream s e) of None \<Rightarrow> []
                 | Some g \<Rightarrow> [Schedule (m_pendingWriterScheduler (stream s e)) g,
                              ResetPendingWriter e])"
  by (simp add: wake_defs split: option.splits)

text \<open>Fields that the methods leave alone, or change in one direction only.\<close>

lemma read_frame:
  "alive (stream (snd (read e f sch b len s)) x) = alive (stream s x)"
  "m_closed (stream (snd (read e f sch b len s)) x) = m_closed (stream s x)"
  "m_otherClosed (stream (snd (read e f sch b len s)) x) = m_otherClosed (stream s x)"
  "m_bufferSize (stream (snd (read e f sch b len s)) x) = m_bufferSize (stream s x)"
  by (simp_all add: read_def Let_def)

lemma write_frame:
  "alive (stream (snd (write_stream size_max e f sch b len s)) x) = alive (stream s x)"
  "m_closed (stream (snd (write_stream size_max e f sch b len s)) x) = m_closed (stream s x)"
  "m_otherClosed (stream (snd (write_stream size_max e f sch b len s)) x) = m_otherClosed (stream s x)"
  "m_bufferSize (stream (snd (write_stream size_max e f sch b len s)) x) = m_bufferSize (stream s x)"
  by (simp_all add: write_stream_def Let_def)

lemma flush_frame:
  "alive (stream (snd (flush e f sch s)) x) = alive (stream s x)"
  "m_closed (stream (snd (flush e f sch s)) x) = m_closed (stream s x)"
  "m_otherClosed (stream (snd (flush e f sch s)) x) = m_otherClosed (stream s x)"
  "m_bufferSize (stream (snd (flush e f sch s)) x) = m_bufferSize (stream s x)"
  "m_readBuffer (stream (snd (flush e f sch s)) x) = m_readBuffer (stream s x)"
  by (simp_all add: flush_def Let_def)

lemma destroy_frame:
  "alive (stream (snd (destroy e s)) x) \<Longrightarrow> alive (stream s x)"
  "m_closed (stream (snd (destroy e s)) x) = m_closed (stream s x)"
  "m_otherClosed (stream (snd (destroy e s)) x) = m_otherClosed (stream s x)"
  "m_bufferSize (stream (snd (destroy e s)) x) = m_bufferSize (stream s x)"
  "m_readBuffer (stream (snd (destroy e s)) x) = m_readBuffer (stream s x)"
  by (simp_all add: destroy_def Let_def split: if_splits)

lemma destroy_dead:
  "destroy e s = (Returned (), s') \<Longrightarrow> \<not> alive (stream s' e)"
  by (auto simp add: destroy_def Let_def split: if_splits)

lemma close_frame:
  "alive (stream (close e type s) x) = alive (stream s x)"
  "m_bufferSize (stream (close e type s) x) = m_bufferSize (stream s x)"
  "m_readBuffer (stream (close e type s) x) = m_readBuffer (stream s x)"
  by (simp_all add: close_def Let_def)

lemma close_closed:
  "m_closed (stream (close e type s) x) =
     (if x = e then closeOr (m_closed (stream s e)) type else m_closed (stream s x))"
  by (simp add: close_def Let_def)

lemma continue_Some: "continue r = Some s' \<Longrightarrow> s' = snd r \<and> fst r \<noteq> AssertFailed"
  by (auto simp add: continue_def split: outcome.splits)

lemma perform_dead:
  "perform size_max c s = Some s' \<Longrightarrow> \<not> alive (stream s x) \<Longrightarrow> \<not> alive (stream s' x)"
  by (cases c)
     (auto simp add: perform_def read_frame write_frame flush_frame close_frame
        dest!: continue_Some dest: destroy_frame(1) split: if_splits)

lemma perform_closedRead:
  "perform size_max c s = Some s' \<Longrightarrow> includesRead (m_closed (stream s x)) \<Longrightarrow>
     includesRead (m_closed (stream s' x))"
  by (cases c)
     (auto simp add: perform_def read_frame write_frame flush_frame close_closed destroy_frame
        dest!: continue_Some split: if_splits)

lemma perform_bufferSize:
  "perform size_max c s = Some s' \<Longrightarrow> m_bufferSize (stream s' x) = m_bufferSize (stream s x)"
  by (cases c)
     (auto simp add: perform_def read_frame write_frame flush_frame close_frame destroy_frame
        dest!: continue_Some split: if_splits)

lemma run_dead:
  "run size_max cs s = Some s' \<Longrightarrow> \<not> alive (stream s x) \<Longrightarrow> \<not> alive (stream s' x)"
  by (induction cs arbitrary: s) (auto split: option.splits dest: perform_dead)

lemma run_closedRead:
  "run size_max cs s = Some s' \<Longrightarrow> includesRead (m_closed (stream s x)) \<Longrightarrow>
     includesRead (m_closed (stream s' x))"
  by (induction cs arbitrary: s) (auto split: option.splits dest: perform_closedRead)

lemma run_bufferSize:
  "run size_max cs s = Some s' \<Longrightarrow> m_bufferSize (stream s' x) = m_bufferSize (stream s x)"
  by (induction cs arbitrary: s) (auto split: option.splits dest: perform_bufferSize)

lemma wrap_le: "a \<le> c \<Longrightarrow> a mod Suc m \<le> (c::nat)"
  by (rule order_trans [OF mod_less_eq_dividend])

lemma sameSize_all:
  "m_bufferSize (stream s First) = m_bufferSize (stream s Second) \<Longrightarrow>
     m_bufferSize (stream s x) = m_bufferSize (stream s y)"
  by (cases x; cases y) simp_all

lemma read_buffer_length:
  "length (m_readBuffer (stream (snd (read e f sch b len s)) x)) \<le> length (m_readBuffer (stream s x))"
  by (simp add: read_def Let_def buffer_defs)

text \<open>Where the sum cannot wrap, a write leaves at most the capacity in the peer's buffer.\<close>

lemma write_buffer_length:
  assumes "length (m_readBuffer (stream s (other e))) + m_bufferSize (stream s e) \<le> size_max"
  shows "length (m_readBuffer (stream (snd (write_stream size_max e f sch b len s)) x))
     \<le> max (length (m_readBuffer (stream s x))) (m_bufferSize (stream s e))"
proof -
  have w1: "(length (m_readBuffer (stream s (other e))) + m_bufferSize (stream s e)) mod Suc size_max
      = length (m_readBuffer (stream s (other e))) + m_bufferSize (stream s e)"
    using assms by simp
  have w2: "(length (m_readBuffer (stream s (other e))) + len) mod Suc size_max
      = length (m_readBuffer (stream s (other e))) + len"
    if "\<not> m_bufferSize (stream s e) < len"
    using assms that by simp
  show ?thesis
    by (auto simp add: write_stream_def Let_def buffer_defs w1 w2)
qed

lemma perform_capacity:
  assumes "perform size_max c s = Some s'"
    and "m_bufferSize (stream s First) = m_bufferSize (stream s Second)"
    and "2 * m_bufferSize (stream s First) \<le> size_max"
    and "\<And>x. length (m_readBuffer (stream s x)) \<le> m_bufferSize (stream s x)"
  shows "length (m_readBuffer (stream s' x)) \<le> m_bufferSize (stream s' x)"
proof -
  have size: "m_bufferSize (stream s' x) = m_bufferSize (stream s x)"
    using assms(1) by (rule perform_bufferSize)
  have same: "m_bufferSize (stream s y) = m_bufferSize (stream s First)" for y
    using assms(2) by (rule sameSize_all)
  have "length (m_readBuffer (stream s' x))
          \<le> max (length (m_readBuffer (stream s x))) (m_bufferSize (stream s (target c)))"
  proof (cases c)
    case (Read e f sch b len)
    then have "s' = snd (read e f sch b len s)"
      using assms(1) by (auto simp add: perform_def dest!: continue_Some split: if_splits)
    then show ?thesis
      using read_buffer_length [of e f sch b len s x] by simp
  next
    case (Write e f sch b len)
    then have s': "s' = snd (write_stream size_max e f sch b len s)"
      using assms(1) by (auto simp add: perform_def dest!: continue_Some split: if_splits)
    have "length (m_readBuffer (stream s (other e))) + m_bufferSize (stream s e) \<le> size_max"
      using assms(3) assms(4) [of "other e"] same [of e] same [of "other e"] by simp
    then show ?thesis
      using write_buffer_length [of s e size_max f sch b len x] Write s' by simp
  next
    case (Flush e f sch)
    then have "s' = snd (flush e f sch s)"
      using assms(1) by (auto simp add: perform_def dest!: continue_Some split: if_splits)
    then show ?thesis by (simp add: flush_frame)
  next
    case (Close e type)
    then have "s' = close e type s"
      using assms(1) by (auto simp add: perform_def split: if_splits)
    then show ?thesis by (simp add: close_frame)
  next
    case (Destroy e)
    then have "s' = snd (destroy e s)"
      using assms(1) by (auto simp add: perform_def dest!: continue_Some split: if_splits)
    then show ?thesis by (simp add: destroy_frame)
  qed
  then show ?thesis
    using size same [of "target c"] same [of x] assms(4) [of x] by simp
qed

lemma run_capacity:
  "run size_max cs s = Some s' \<Longrightarrow>
   m_bufferSize (stream s First) = m_bufferSize (stream s Second) \<Longrightarrow>
   2 * m_bufferSize (stream s First) \<le> size_max \<Longrightarrow>
   (\<And>x. length (m_readBuffer (stream s x)) \<le> m_bufferSize (stream s x)) \<Longrightarrow>
   length (m_readBuffer (stream s' x)) \<le> m_bufferSize (stream s' x)"
proof (induction cs arbitrary: s)
  case Nil
  then show ?case by simp
next
  case (Cons c cs)
  from Cons.prems(1) obtain s1
    where step: "perform size_max c s = Some s1" and rest: "run size_max cs s1 = Some s'"
    by (auto split: option.splits)
  have "m_bufferSize (stream s1 First) = m_bufferSize (stream s1 Second)"
    using Cons.prems(2) by (simp add: perform_bufferSize [OF step])
  moreover have "2 * m_bufferSize (stream s1 First) \<le> size_max"
    using Cons.prems(3) by (simp add: perform_bufferSize [OF step])
  moreover have "\<And>y. length (m_readBuffer (stream s1 y)) \<le> m_bufferSize (stream s1 y)"
    using perform_capacity [OF step Cons.prems(2) Cons.prems(3)] Cons.prems(4) by blast
  ultimately show ?case
    using Cons.IH [OF rest] by blast
qed

text \<open>
  Claim C2 (capacity invariant), amended. On a pair whose capacity is at most half of
  \<open>SIZE_MAX\<close>, in every state that calls reach from the new pair the buffer of every
  endpoint holds at most \<open>m_bufferSize\<close> bytes, and so it does after a write of the peer
  that returns. A write whose copy would exceed the capacity, the sum being at most
  \<open>SIZE_MAX\<close>, changes no buffer and does not return: it throws \<open>BadHandleException\<close> or
  \<open>BrokenPipeException\<close> under the error conditions of \<open>write\<close>, fails the assertion when
  the pending writer slot of the peer is taken, and otherwise registers the calling fiber in
  that slot and yields.
\<close>

theorem C2_capacity_invariant:
  "(2 * m_bufferSize (stream (pipeStream n) First) \<le> size_max \<longrightarrow>
    run size_max cs (pipeStream n) = Some s \<longrightarrow>
      length (m_readBuffer (stream s x)) \<le> m_bufferSize (stream s x)) \<and>
   (2 * m_bufferSize (stream (pipeStream n) First) \<le> size_max \<longrightarrow>
    run size_max cs (pipeStream n) = Some s \<longrightarrow>
    fst (write_stream size_max e f sch b len s) = Returned k \<longrightarrow>
      length (m_readBuffer (stream (snd (write_stream size_max e f sch b len s)) (other e)))
        \<le> m_bufferSize (stream (snd (write_stream size_max e f sch b len s)) (other e))) \<and>
   (length (m_readBuffer (stream t (other e))) + min len (m_bufferSize (stream t e)) \<le> size_max \<longrightarrow>
    m_bufferSize (stream t e)
      < length (m_readBuffer (stream t (other e))) + min len (m_bufferSize (stream t e)) \<longrightarrow>
      m_readBuffer (stream (snd (write_stream size_max e f sch b len t)) x)
        = m_readBuffer (stream t x) \<and>
      fst (write_stream size_max e f sch b len t) \<noteq> Returned k \<and>
      (includesWrite (m_closed (stream t e)) \<longrightarrow>
         write_stream size_max e f sch b len t = (Threw BadHandleException, t)) \<and>
      (\<not> includesWrite (m_closed (stream t e)) \<longrightarrow>
       (\<not> alive (stream t (other e)) \<or> includesRead (m_closed (stream t (other e)))) \<longrightarrow>
         write_stream size_max e f sch b len t = (Threw BrokenPipeException, t)) \<and>
      (\<not> includesWrite (m_closed (stream t e)) \<longrightarrow> alive (stream t (other e)) \<longrightarrow>
       \<not> includesRead (m_closed (stream t (other e))) \<longrightarrow>
       m_pendingWriter (stream t (other e)) \<noteq> None \<longrightarrow>
         write_stream size_max e f sch b len t = (AssertFailed, t)) \<and>
      (\<not> includesWrite (m_closed (stream t e)) \<longrightarrow> alive (stream t (other e)) \<longrightarrow>
       \<not> includesRead (m_closed (stream t (other e))) \<longrightarrow>
       m_pendingWriter (stream t (other e)) = None \<longrightarrow>
         fst (write_stream size_max e f sch b len t) = Yield \<and>
         m_pendingWriter (stream (snd (write_stream size_max e f sch b len t)) (other e)) = Some f \<and>
         m_pendingWriterScheduler (stream (snd (write_stream size_max e f sch b len t)) (other e))
           = Scheduler sch))"
proof -
  have init: "m_bufferSize (stream (pipeStream n) First) = m_bufferSize (stream (pipeStream n) Second)"
    "\<And>y. length (m_readBuffer (stream (pipeStream n) y)) \<le> m_bufferSize (stream (pipeStream n) y)"
    by (simp_all add: PipeStream_new_def)
  have reach: "length (m_readBuffer (stream s y)) \<le> m_bufferSize (stream s y)"
    if "2 * m_bufferSize (stream (pipeStream n) First) \<le> size_max"
      "run size_max cs (pipeStream n) = Some s" for y
    using run_capacity [OF that(2) init(1) that(1) init(2)] by blast
  have same: "m_bufferSize (stream s y) = m_bufferSize (stream (pipeStream n) First)"
    if r: "run size_max cs (pipeStream n) = Some s" for y
    using sameSize_all [OF init(1), of y First] by (simp add: run_bufferSize [OF r])
  have after: "length (m_readBuffer (stream (snd (write_stream size_max e f sch b len s)) (other e)))
        \<le> m_bufferSize (stream (snd (write_stream size_max e f sch b len s)) (other e))"
    if c: "2 * m_bufferSize (stream (pipeStream n) First) \<le> size_max"
      and r: "run size_max cs (pipeStream n) = Some s"
  proof -
    have "length (m_readBuffer (stream s (other e))) + m_bufferSize (stream s e) \<le> size_max"
      using c reach [OF c r, of "other e"] same [OF r, of e] same [OF r, of "other e"] by simp
    then show ?thesis
      using write_buffer_length [of s e size_max f sch b len "other e"]
        reach [OF c r, of "other e"] same [OF r, of e] same [OF r, of "other e"]
      by (simp add: write_frame)
  qed
  have blocked: "m_readBuffer (stream (snd (write_stream size_max e f sch b len t)) x)
        = m_readBuffer (stream t x) \<and>
      fst (write_stream size_max e f sch b len t) \<noteq> Returned k \<and>
      (includesWrite (m_closed (stream t e)) \<longrightarrow>
         write_stream size_max e f sch b len t = (Threw BadHandleException, t)) \<and>
      (\<not> includesWrite (m_closed (stream t e)) \<longrightarrow>
       (\<not> alive (stream t (other e)) \<or> includesRead (m_closed (stream t (other e)))) \<longrightarrow>
         write_stream size_max e f sch b len t = (Threw BrokenPipeException, t)) \<and>
      (\<not> includesWrite (m_closed (stream t e)) \<longrightarrow> alive (stream t (other e)) \<longrightarrow>
       \<not> includesRead (m_closed (stream t (other e))) \<longrightarrow>
       m_pendingWriter (stream t (other e)) \<noteq> None \<longrightarrow>
         write_stream size_max e f sch b len t = (AssertFailed, t)) \<and>
      (\<not> includesWrite (m_closed (stream t e)) \<longrightarrow> alive (stream t (other e)) \<longrightarrow>
       \<not> includesRead (m_closed (stream t (other e))) \<longrightarrow>
       m_pendingWriter (stream t (other e)) = None \<longrightarrow>
         fst (write_stream size_max e f sch b len t) = Yield \<and>
         m_pendingWriter (stream (snd (write_stream size_max e f sch b len t)) (other e)) = Some f \<and>
         m_pendingWriterScheduler (stream (snd (write_stream size_max e f sch b len t)) (other e))
           = Scheduler sch)"
    if nowrap: "length (m_readBuffer (stream t (other e))) + min len (m_bufferSize (stream t e))
           \<le> size_max"
      and over: "m_bufferSize (stream t e)
           < length (m_readBuffer (stream t (other e))) + min len (m_bufferSize (stream t e))"
  proof -
    let ?len = "if m_bufferSize (stream t e) < len then m_bufferSize (stream t e) else len"
    have len: "?len = min len (m_bufferSize (stream t e))"
      by (simp add: min_def)
    have "(length (m_readBuffer (stream t (other e))) + ?len) mod (size_max + 1)
            = length (m_readBuffer (stream t (other e))) + ?len"
      using nowrap unfolding len by simp
    then have no: "\<not> (length (m_readBuffer (stream t (other e))) + ?len) mod (size_max + 1)
            \<le> m_bufferSize (stream t e)"
      using over unfolding len by simp
    show ?thesis
      using no by (auto simp add: write_stream_def Let_def buffer_defs)
  qed
  show ?thesis
    using reach after blocked by blast
qed

text \<open>
  Claim C2, the theorem at a pair of capacity 4 after a write of 3 bytes, with a
  \<open>SIZE_MAX\<close> of 32 bits: a second write of 3 bytes leaves the buffer alone, registers
  fiber 7 and yields.
\<close>

theorem C2_capacity_invariant_witness:
  "run 4294967295 [Write First 8 2 [10, 20, 30] 3] (pipeStream 4)
     = Some (snd (write_stream 4294967295 First 8 2 [10, 20, 30] 3 (pipeStream 4))) \<and>
   length (m_readBuffer
     (stream (snd (write_stream 4294967295 First 8 2 [10, 20, 30] 3 (pipeStream 4))) Second)) \<le> 4 \<and>
   fst (write_stream 4294967295 First 7 2 [40, 50, 60] 3
          (snd (write_stream 4294967295 First 8 2 [10, 20, 30] 3 (pipeStream 4))))
     = Yield \<and>
   m_readBuffer (stream (snd (write_stream 4294967295 First 7 2 [40, 50, 60] 3
       (snd (write_stream 4294967295 First 8 2 [10, 20, 30] 3 (pipeStream 4))))) Second)
     = [10, 20, 30] \<and>
   m_pendingWriter (stream (snd (write_stream 4294967295 First 7 2 [40, 50, 60] 3
       (snd (write_stream 4294967295 First 8 2 [10, 20, 30] 3 (pipeStream 4))))) Second) = Some 7"
proof -
  let ?s = "snd (write_stream 4294967295 First 8 2 [10, 20, 30] 3 (pipeStream 4))"
  have w: "write_stream 4294967295 First 8 2 [10, 20, 30] 3 (pipeStream 4)
             = (Returned 3,
                update Second (\<lambda>r. r\<lparr>m_readBuffer := m_readBuffer r @ [10, 20, 30]\<rparr>) (pipeStream 4))"
    by (simp add: write_stream_def Let_def buffer_defs PipeStream_new_def unspecified_def)
  have r: "run 4294967295 [Write First 8 2 [10, 20, 30] 3] (pipeStream 4) = Some ?s"
    by (simp add: perform_def continue_def w PipeStream_new_def)
  have st: "stream ?s Second = (PipeStream_new 4)\<lparr>m_readBuffer := [10, 20, 30]\<rparr>"
    "stream ?s First = PipeStream_new 4"
    by (simp_all add: w unspecified_def PipeStream_new_def)
  show ?thesis
    using C2_capacity_invariant [where size_max = 4294967295
        and cs = "[Write First 8 2 [10, 20, 30] 3]" and n = 4
        and s = ?s and x = Second and e = First and f = 7 and sch = 2
        and b = "[40, 50, 60]" and len = 3 and k = 3 and t = ?s] r
    by (simp add: st PipeStream_new_def unspecified_def)
qed

text \<open>
  Claim C2 as stated fails in two ways. A write whose copy would exceed the capacity does not
  register and suspend when the pending writer slot is taken: on a pair of capacity 4 that
  holds 3 bytes, with fiber 7 pending, the write of 3 bytes by fiber 9 fails the assertion.
  And a returning write leaves more than the capacity where the sum wraps: with a
  \<open>SIZE_MAX\<close> of 32 bits, on a pair of capacity 2147483648, the second of two writes of
  2147483648 bytes returns and the buffer of the peer holds 4294967296 bytes.
\<close>

theorem C2_slot_taken_and_wrap_counterexample:
  "fst (write_stream 4294967295 First 9 2 [70, 80, 90] 3
          (snd (write_stream 4294967295 First 7 2 [40, 50, 60] 3
             (snd (write_stream 4294967295 First 8 2 [10, 20, 30] 3 (pipeStream 4))))))
     = AssertFailed \<and>
   fst (write_stream 4294967295 First 8 2 (replicate 2147483648 0) 2147483648
          (snd (write_stream 4294967295 First 8 2 (replicate 2147483648 0) 2147483648
             (pipeStream 2147483648))))
     = Returned 2147483648 \<and>
   length (m_readBuffer (stream
     (snd (write_stream 4294967295 First 8 2 (replicate 2147483648 0) 2147483648
        (snd (write_stream 4294967295 First 8 2 (replicate 2147483648 0) 2147483648
           (pipeStream 2147483648))))) Second)) = 4294967296 \<and>
   m_bufferSize (stream
     (snd (write_stream 4294967295 First 8 2 (replicate 2147483648 0) 2147483648
        (snd (write_stream 4294967295 First 8 2 (replicate 2147483648 0) 2147483648
           (pipeStream 2147483648))))) Second) = 2147483648"
proof -
  let ?w = "snd (write_stream 4294967295 First 8 2 [10, 20, 30] 3 (pipeStream 4))"
  let ?y = "snd (write_stream 4294967295 First 7 2 [40, 50, 60] 3 ?w)"
  have w: "stream ?w First = PipeStream_new 4"
    "stream ?w Second = (PipeStream_new 4)\<lparr>m_readBuffer := [10, 20, 30]\<rparr>"
    by (simp_all add: write_stream_def Let_def buffer_defs PipeStream_new_def unspecified_def)
  have y: "stream ?y First = PipeStream_new 4"
    "stream ?y Second = (PipeStream_new 4)\<lparr>m_readBuffer := [10, 20, 30],
        m_pendingWriterScheduler := Scheduler 2, m_pendingWriter := Some 7\<rparr>"
    by (simp_all add: write_stream_def [of _ First 7] Let_def buffer_defs w PipeStream_new_def)
  have a: "fst (write_stream 4294967295 First 9 2 [70, 80, 90] 3 ?y) = AssertFailed"
    by (simp add: write_stream_def [of _ First 9] Let_def buffer_defs y PipeStream_new_def)
  let ?b = "replicate 2147483648 (0::byte)"
  let ?p = "snd (write_stream 4294967295 First 8 2 ?b 2147483648 (pipeStream 2147483648))"
  let ?q = "snd (write_stream 4294967295 First 8 2 ?b 2147483648 ?p)"
  have p: "stream ?p First = PipeStream_new 2147483648"
    "stream ?p Second = (PipeStream_new 2147483648)\<lparr>m_readBuffer := ?b\<rparr>"
    by (simp_all add: write_stream_def Let_def buffer_defs PipeStream_new_def unspecified_def)
  have q1: "fst (write_stream 4294967295 First 8 2 ?b 2147483648 ?p) = Returned 2147483648"
    by (simp add: write_stream_def [of _ First 8 2 ?b] Let_def buffer_defs p PipeStream_new_def
        unspecified_def)
  have q2: "m_readBuffer (stream ?q Second) = ?b @ ?b"
    "m_bufferSize (stream ?q Second) = 2147483648"
    by (simp_all add: write_stream_def [of _ First 8 2 ?b] Let_def buffer_defs p
        PipeStream_new_def unspecified_def)
  show ?thesis
    using a q1 by (simp add: q2 unspecified_def)
qed

lemma added_append [simp]: "events s' = events s @ evs \<Longrightarrow> added s s' = evs"
  by (simp add: added_def)

lemma wokenInOrder_read: "wokenInOrder s (snd (read e f sch b len s))"
  by (cases e)
     (auto simp add: wokenInOrder_def added_def read_def Let_def events_scheduleAndResetWriter
        split: option.splits)

lemma wokenInOrder_write: "wokenInOrder s (snd (write_stream size_max e f sch b len s))"
  by (cases e)
     (auto simp add: wokenInOrder_def added_def write_stream_def Let_def
        events_scheduleAndResetReader split: option.splits)

lemma wokenInOrder_flush: "wokenInOrder s (snd (flush e f sch s))"
  by (auto simp add: wokenInOrder_def added_def flush_def Let_def)

lemma wokenInOrder_close: "wokenInOrder s (close e type s)"
  by (cases e)
     (auto simp add: wokenInOrder_def added_def close_def Let_def
        events_scheduleAndResetReader events_scheduleAndResetWriter split: option.splits)

lemma wokenInOrder_destroy: "wokenInOrder s (snd (destroy e s))"
  by (cases e)
     (auto simp add: wokenInOrder_def added_def destroy_def Let_def
        events_scheduleAndResetReader events_scheduleAndResetWriter split: option.splits)

lemmas eval_defs = read_def write_stream_def flush_def close_def destroy_def
  PipeStream_new_def buffer_defs unspecified_def Let_def

text \<open>
  Claim C1 (round trip), amended. For a byte sequence of length N with 1 \<le> N \<le> capacity, on a
  pair whose two objects exist, whose writer has not closed Write, whose reader has not closed
  Read and whose receiving buffer is empty (a new pair is such a pair): writing the N bytes on
  one endpoint returns N, and reading N bytes on the peer then returns N and appends exactly
  the written bytes, in order, to the caller's buffer.
\<close>

theorem C1_round_trip:
  assumes "1 \<le> length bytes" and "length bytes \<le> m_bufferSize (stream s e)"
    and "alive (stream s e)" and "alive (stream s (other e))"
    and "\<not> includesWrite (m_closed (stream s e))"
    and "\<not> includesRead (m_closed (stream s (other e)))"
    and "m_readBuffer (stream s (other e)) = []"
  shows "fst (write_stream size_max e f sch bytes (length bytes) s) = Returned (length bytes) \<and>
         fst (read (other e) f' sch' b (length bytes)
                (snd (write_stream size_max e f sch bytes (length bytes) s)))
           = Returned (length bytes, b @ bytes)"
proof -
  from assms(1) have ne: "bytes \<noteq> []" by auto
  have w: "fst (write_stream size_max e f sch bytes (length bytes) s) = Returned (length bytes)"
    using assms by (simp add: write_stream_def Let_def buffer_defs wrap_le)
  have buf: "m_readBuffer (stream (snd (write_stream size_max e f sch bytes (length bytes) s)) (other e)) = bytes"
    using assms by (simp add: write_stream_def Let_def buffer_defs wrap_le)
  have r: "fst (read (other e) f' sch' b (length bytes)
                (snd (write_stream size_max e f sch bytes (length bytes) s)))
           = Returned (length bytes, b @ bytes)"
    using assms ne by (simp add: read_def [of "other e"] Let_def buffer_defs buf write_frame)
  from w r show ?thesis ..
qed

text \<open>
  Claim C1, the theorem at a new pair of capacity 65536 and the bytes 10, 20, 30.
\<close>

theorem C1_round_trip_witness:
  "fst (write_stream 4294967295 First 8 2 [10, 20, 30] 3 (pipeStream 65536)) = Returned 3 \<and>
   fst (read Second 7 2 [] 3 (snd (write_stream 4294967295 First 8 2 [10, 20, 30] 3 (pipeStream 65536))))
     = Returned (3, [10, 20, 30])"
  using C1_round_trip [where size_max = 4294967295 and bytes = "[10, 20, 30]" and s = "pipeStream 65536" and e = First
      and f = 8 and sch = 2 and f' = 7 and sch' = 2 and b = "[]"]
  by (simp add: PipeStream_new_def unspecified_def numeral_3_eq_3)

text \<open>
  Claim C1 as stated fails for N = 0: on a new pair the write of no bytes returns 0, and the
  read of 0 bytes on the peer does not return, it registers the reader and yields.
\<close>

theorem C1_zero_length_counterexample:
  "fst (write_stream 4294967295 First 8 2 [] 0 (pipeStream 65536)) = Returned 0 \<and>
   fst (read Second 7 2 [] 0 (snd (write_stream 4294967295 First 8 2 [] 0 (pipeStream 65536)))) = Yield"
  by (simp add: eval_defs)

text \<open>
  Claim C3 (clean end of stream), amended. For an endpoint that has not closed its own Read
  direction, whose buffer is empty and whose recorded close state of the peer includes Write,
  \<open>read\<close> returns 0 and changes nothing. On a new pair of capacity at least 5: after the peer
  writes 5 bytes and closes Write, a read of 5 bytes returns these bytes and a further read
  returns 0.
\<close>

theorem C3_end_of_stream:
  "(\<not> includesRead (m_closed (stream s e)) \<longrightarrow> m_readBuffer (stream s e) = [] \<longrightarrow>
      includesWrite (m_otherClosed (stream s e)) \<longrightarrow>
      read e f sch b len s = (Returned (0, b), s)) \<and>
   (length bytes = 5 \<longrightarrow> 5 \<le> n \<longrightarrow>
      fst (write_stream size_max a f sch bytes 5 (pipeStream n)) = Returned 5 \<and>
      fst (read (other a) f' sch' [] 5
            (close a WRITE (snd (write_stream size_max a f sch bytes 5 (pipeStream n)))))
        = Returned (5, bytes) \<and>
      fst (read (other a) f' sch' b' len'
            (snd (read (other a) f' sch' [] 5
                   (close a WRITE (snd (write_stream size_max a f sch bytes 5 (pipeStream n)))))))
        = Returned (0, b'))"
proof -
  have eof: "read e f sch b len s = (Returned (0, b), s)"
    if "\<not> includesRead (m_closed (stream s e))" "m_readBuffer (stream s e) = []"
       "includesWrite (m_otherClosed (stream s e))"
    using that by (simp add: read_def Let_def buffer_defs)
  have scen: "fst (write_stream size_max a f sch bytes 5 (pipeStream n)) = Returned 5 \<and>
      fst (read (other a) f' sch' [] 5
            (close a WRITE (snd (write_stream size_max a f sch bytes 5 (pipeStream n)))))
        = Returned (5, bytes) \<and>
      fst (read (other a) f' sch' b' len'
            (snd (read (other a) f' sch' [] 5
                   (close a WRITE (snd (write_stream size_max a f sch bytes 5 (pipeStream n)))))))
        = Returned (0, b')"
    if len: "length bytes = 5" and cap: "5 \<le> n"
  proof -
    let ?s1 = "snd (write_stream size_max a f sch bytes 5 (pipeStream n))"
    let ?s2 = "close a WRITE ?s1"
    let ?s3 = "snd (read (other a) f' sch' [] 5 ?s2)"
    have w: "write_stream size_max a f sch bytes 5 (pipeStream n)
       = (Returned 5, update (other a) (\<lambda>r. r\<lparr>m_readBuffer := m_readBuffer r @ bytes\<rparr>) (pipeStream n))"
      using len cap
      by (simp add: write_stream_def Let_def buffer_defs PipeStream_new_def unspecified_def wrap_le)
    have s2: "stream ?s2 (other a) =
        (PipeStream_new (if n = unspecified then 65536 else n))\<lparr>m_readBuffer := bytes, m_otherClosed := WRITE\<rparr>"
      by (simp add: w close_def Let_def PipeStream_new_def closeOr_def fromBits_def)
    have r1: "fst (read (other a) f' sch' [] 5 ?s2) = Returned (5, bytes)"
      using len by (simp add: read_def [of "other a"] Let_def s2 buffer_defs PipeStream_new_def)
    have s3: "m_readBuffer (stream ?s3 (other a)) = []"
      "m_closed (stream ?s3 (other a)) = NONE" "m_otherClosed (stream ?s3 (other a)) = WRITE"
      using len by (simp_all add: read_def [of "other a"] Let_def s2 buffer_defs PipeStream_new_def)
    have r2: "fst (read (other a) f' sch' b' len' ?s3) = Returned (0, b')"
      by (simp add: read_def [of "other a" _ _ b'] Let_def s3 buffer_defs)
    show ?thesis using w r1 r2 by simp
  qed
  show ?thesis using eof scen by blast
qed

text \<open>
  Claim C3, the theorem at a pair of capacity 65536 whose first endpoint has closed Write, and
  at the scenario with the bytes 10, 20, 30, 40, 50.
\<close>

theorem C3_end_of_stream_witness:
  "read Second 7 2 [] 5 (close First WRITE (pipeStream 65536))
     = (Returned (0, []), close First WRITE (pipeStream 65536)) \<and>
   fst (write_stream 4294967295 First 8 2 [10, 20, 30, 40, 50] 5 (pipeStream 65536)) = Returned 5 \<and>
   fst (read Second 7 2 [] 5
         (close First WRITE (snd (write_stream 4294967295 First 8 2 [10, 20, 30, 40, 50] 5 (pipeStream 65536)))))
     = Returned (5, [10, 20, 30, 40, 50]) \<and>
   fst (read Second 7 2 [] 5
         (snd (read Second 7 2 [] 5
           (close First WRITE (snd (write_stream 4294967295 First 8 2 [10, 20, 30, 40, 50] 5 (pipeStream 65536)))))))
     = Returned (0, [])"
  using C3_end_of_stream [where size_max = 4294967295 and s = "close First WRITE (pipeStream 65536)" and e = Second
      and f = 7 and sch = 2 and b = "[]" and len = 5
      and bytes = "[10, 20, 30, 40, 50]" and n = 65536 and a = First and f' = 7 and sch' = 2
      and b' = "[]" and len' = 5]
    C3_end_of_stream [where size_max = 4294967295 and bytes = "[10, 20, 30, 40, 50]" and n = 65536 and a = First
      and f = 8 and sch = 2 and f' = 7 and sch' = 2 and b' = "[]" and len' = 5]
  by (simp add: close_def Let_def PipeStream_new_def closeOr_def fromBits_def unspecified_def)

text \<open>
  Claim C3 as stated fails for an endpoint that has closed its own Read direction: its buffer
  is empty and the recorded close state of the peer includes Write, and \<open>read\<close> throws
  \<open>BadHandleException\<close>.
\<close>

theorem C3_own_read_closed_counterexample:
  "m_readBuffer (stream (close First WRITE (close Second READ (pipeStream 65536))) Second) = [] \<and>
   includesWrite
     (m_otherClosed (stream (close First WRITE (close Second READ (pipeStream 65536))) Second)) \<and>
   fst (read Second 7 2 [] 5 (close First WRITE (close Second READ (pipeStream 65536))))
     = Threw BadHandleException"
  by (simp add: eval_defs closeOr_def fromBits_def)

text \<open>
  Claim C10 (flush and the own Write flag). For an endpoint that has closed its own Write
  direction, whose peer exists, has not closed Read and has an empty buffer, \<open>flush\<close> returns
  and changes nothing, while \<open>write\<close> in the same state throws \<open>BadHandleException\<close>.
\<close>

theorem C10_flush_ignores_own_write_close:
  assumes "includesWrite (m_closed (stream s e))"
    and "alive (stream s (other e))"
    and "\<not> includesRead (m_closed (stream s (other e)))"
    and "m_readBuffer (stream s (other e)) = []"
  shows "flush e f sch s = (Returned (), s) \<and>
         write_stream size_max e f sch b len s = (Threw BadHandleException, s)"
  using assms by (simp add: flush_def write_stream_def Let_def buffer_defs)

text \<open>
  Claim C10, the theorem at a new pair whose first endpoint has closed Write.
\<close>

theorem C10_flush_ignores_own_write_close_witness:
  "includesWrite (m_closed (stream (close First WRITE (pipeStream 65536)) First)) \<and>
   flush First 8 2 (close First WRITE (pipeStream 65536))
     = (Returned (), close First WRITE (pipeStream 65536)) \<and>
   write_stream 4294967295 First 8 2 [7] 5 (close First WRITE (pipeStream 65536))
     = (Threw BadHandleException, close First WRITE (pipeStream 65536))"
  using C10_flush_ignores_own_write_close [where size_max = 4294967295 and s = "close First WRITE (pipeStream 65536)"
      and e = First and f = 8 and sch = 2 and b = "[7]" and len = 5]
  by (simp add: close_def Let_def PipeStream_new_def closeOr_def fromBits_def unspecified_def)

text \<open>
  Claim C9 (creation), amended. \<open>pipeStream\<close> takes every byte count: the value \<open>~0u\<close> gives
  both endpoints the capacity 65536, every other value, zero too, is the capacity of both
  endpoints as it is. Both objects exist, with empty buffers, no close flags and no pending
  fibers.
\<close>

theorem C9_pipeStream_capacity:
  "m_bufferSize (stream (pipeStream unspecified) e) = 65536 \<and>
   (n \<noteq> unspecified \<longrightarrow> m_bufferSize (stream (pipeStream n) e) = n) \<and>
   alive (stream (pipeStream n) e) \<and>
   m_readBuffer (stream (pipeStream n) e) = [] \<and>
   m_closed (stream (pipeStream n) e) = NONE \<and>
   m_otherClosed (stream (pipeStream n) e) = NONE \<and>
   m_pendingReader (stream (pipeStream n) e) = None \<and>
   m_pendingWriter (stream (pipeStream n) e) = None"
  by (simp add: PipeStream_new_def)

text \<open>
  Claim C9, the theorem at the value \<open>~0u\<close> and at 1024.
\<close>

theorem C9_pipeStream_capacity_witness:
  "m_bufferSize (stream (pipeStream 4294967295) First) = 65536 \<and>
   m_bufferSize (stream (pipeStream 1024) Second) = 1024 \<and>
   alive (stream (pipeStream 1024) Second)"
  using C9_pipeStream_capacity [of First 1024] C9_pipeStream_capacity [of Second 1024]
  by (simp add: unspecified_def)

text \<open>
  Claim C9 as stated fails at 0: \<open>pipeStream\<close> takes the byte count 0 and makes a pair of
  capacity 0, on which a write of 3 bytes is clamped to no bytes and returns 0.
\<close>

theorem C9_zero_capacity_counterexample:
  "alive (stream (pipeStream 0) First) \<and> alive (stream (pipeStream 0) Second) \<and>
   m_bufferSize (stream (pipeStream 0) First) = 0 \<and>
   m_bufferSize (stream (pipeStream 0) Second) = 0 \<and>
   fst (write_stream 4294967295 First 8 2 [10, 20, 30] 3 (pipeStream 0)) = Returned 0"
  by (simp add: eval_defs)

lemma take_min_length: "take (min n (length xs)) xs = take n xs"
  by (simp add: min_def)

text \<open>
  Claim C4 (write errors). \<open>write\<close> throws \<open>BadHandleException\<close> exactly when the endpoint's
  own close state includes Write. Otherwise it throws \<open>BrokenPipeException\<close> when the peer
  no longer exists or the peer's own close state includes Read. After an endpoint has
  closed Read, and after any further calls on the pair, a write on its peer throws
  \<open>BrokenPipeException\<close> (the peer's own Write flag being checked first, as in the first
  part).
\<close>

theorem C4_write_errors:
  "((fst (write_stream size_max e f sch b len s) = Threw BadHandleException)
      = includesWrite (m_closed (stream s e))) \<and>
   (\<not> includesWrite (m_closed (stream s e)) \<longrightarrow>
      (\<not> alive (stream s (other e)) \<or> includesRead (m_closed (stream s (other e)))) \<longrightarrow>
      write_stream size_max e f sch b len s = (Threw BrokenPipeException, s)) \<and>
   (run size_max cs (close a READ t) = Some t' \<longrightarrow>
      \<not> includesWrite (m_closed (stream t' (other a))) \<longrightarrow>
      write_stream size_max (other a) f sch b len t' = (Threw BrokenPipeException, t'))"
proof -
  have misuse: "(fst (write_stream size_max e f sch b len s) = Threw BadHandleException)
      = includesWrite (m_closed (stream s e))"
    by (simp add: write_stream_def Let_def)
  have broken: "write_stream size_max x f sch b len u = (Threw BrokenPipeException, u)"
    if "\<not> includesWrite (m_closed (stream u x))"
       "\<not> alive (stream u (other x)) \<or> includesRead (m_closed (stream u (other x)))"
    for x u
    using that by (auto simp add: write_stream_def Let_def)
  have later: "write_stream size_max (other a) f sch b len t' = (Threw BrokenPipeException, t')"
    if r: "run size_max cs (close a READ t) = Some t'"
      and own: "\<not> includesWrite (m_closed (stream t' (other a)))"
  proof -
    have "includesRead (m_closed (stream (close a READ t) a))"
      by (simp add: close_closed)
    then have "includesRead (m_closed (stream t' a))"
      using r by (rule run_closedRead [rotated])
    then show ?thesis
      using broken [of t' "other a"] own by simp
  qed
  show ?thesis
    using misuse broken [of s e] later by blast
qed

text \<open>
  Claim C4, the theorem at a new pair: a write on an endpoint that closed Write, and a write
  on the second endpoint after the first has closed Read and the second has closed Read too.
\<close>

theorem C4_write_errors_witness:
  "fst (write_stream 4294967295 First 8 2 [10] 5 (close First WRITE (pipeStream 65536)))
     = Threw BadHandleException \<and>
   write_stream 4294967295 Second 7 2 [10] 5 (close Second READ (close First READ (pipeStream 65536)))
     = (Threw BrokenPipeException, close Second READ (close First READ (pipeStream 65536)))"
proof -
  let ?t' = "close Second READ (close First READ (pipeStream 65536))"
  have r: "run 4294967295 [Close Second READ] (close First READ (pipeStream 65536)) = Some ?t'"
    by (simp add: perform_def close_frame PipeStream_new_def)
  have own: "\<not> includesWrite (m_closed (stream ?t' (other First)))"
    by (simp add: close_closed PipeStream_new_def)
  have w: "includesWrite (m_closed (stream (close First WRITE (pipeStream 65536)) First))"
    by (simp add: close_closed)
  show ?thesis
    using C4_write_errors [where size_max = 4294967295 and e = First and f = 8 and sch = 2 and b = "[10]" and len = 5
        and s = "close First WRITE (pipeStream 65536)" and cs = "[]" and a = First
        and t = "pipeStream 65536" and t' = "close First READ (pipeStream 65536)"]
      C4_write_errors [where size_max = 4294967295 and e = First and f = 7 and sch = 2 and b = "[10]" and len = 5
        and s = "pipeStream 65536" and cs = "[Close Second READ]" and a = First
        and t = "pipeStream 65536" and t' = ?t'] r own w
    by simp
qed

text \<open>
  Claim C5 (peer gone), amended. After the destructor of an endpoint has run, and after any
  further calls, on the peer: \<open>write\<close> (its own Write not closed) and \<open>flush\<close> throw
  \<open>BrokenPipeException\<close>; \<open>read\<close> (its own Read not closed) throws
  \<open>BrokenPipeException\<close> whenever the recorded close state of the destroyed endpoint does
  not include Write, whatever the buffer holds; only when the destroyed endpoint had closed
  Write does \<open>read\<close> return the buffered bytes, and 0 once the buffer is empty.
\<close>

theorem C5_peer_gone:
  "destroy a s = (Returned (), s1) \<longrightarrow> run size_max cs s1 = Some s' \<longrightarrow>
     (\<not> includesWrite (m_closed (stream s' (other a))) \<longrightarrow>
        write_stream size_max (other a) f sch b len s' = (Threw BrokenPipeException, s')) \<and>
     flush (other a) f sch s' = (Threw BrokenPipeException, s') \<and>
     (\<not> includesRead (m_closed (stream s' (other a))) \<longrightarrow>
      \<not> includesWrite (m_otherClosed (stream s' (other a))) \<longrightarrow>
        read (other a) f sch b len s' = (Threw BrokenPipeException, s')) \<and>
     (\<not> includesRead (m_closed (stream s' (other a))) \<longrightarrow>
      includesWrite (m_otherClosed (stream s' (other a))) \<longrightarrow>
      m_readBuffer (stream s' (other a)) \<noteq> [] \<longrightarrow>
        fst (read (other a) f sch b len s')
          = Returned (min len (length (m_readBuffer (stream s' (other a)))),
                      b @ take len (m_readBuffer (stream s' (other a))))) \<and>
     (\<not> includesRead (m_closed (stream s' (other a))) \<longrightarrow>
      includesWrite (m_otherClosed (stream s' (other a))) \<longrightarrow>
      m_readBuffer (stream s' (other a)) = [] \<longrightarrow>
        read (other a) f sch b len s' = (Returned (0, b), s'))"
proof (intro impI)
  assume d: "destroy a s = (Returned (), s1)" and r: "run size_max cs s1 = Some s'"
  have gone: "\<not> alive (stream s' a)"
    using r destroy_dead [OF d] by (rule run_dead)
  show "(\<not> includesWrite (m_closed (stream s' (other a))) \<longrightarrow>
        write_stream size_max (other a) f sch b len s' = (Threw BrokenPipeException, s')) \<and>
     flush (other a) f sch s' = (Threw BrokenPipeException, s') \<and>
     (\<not> includesRead (m_closed (stream s' (other a))) \<longrightarrow>
      \<not> includesWrite (m_otherClosed (stream s' (other a))) \<longrightarrow>
        read (other a) f sch b len s' = (Threw BrokenPipeException, s')) \<and>
     (\<not> includesRead (m_closed (stream s' (other a))) \<longrightarrow>
      includesWrite (m_otherClosed (stream s' (other a))) \<longrightarrow>
      m_readBuffer (stream s' (other a)) \<noteq> [] \<longrightarrow>
        fst (read (other a) f sch b len s')
          = Returned (min len (length (m_readBuffer (stream s' (other a)))),
                      b @ take len (m_readBuffer (stream s' (other a))))) \<and>
     (\<not> includesRead (m_closed (stream s' (other a))) \<longrightarrow>
      includesWrite (m_otherClosed (stream s' (other a))) \<longrightarrow>
      m_readBuffer (stream s' (other a)) = [] \<longrightarrow>
        read (other a) f sch b len s' = (Returned (0, b), s'))"
    using gone
    by (simp add: write_stream_def [of _ "other a"] flush_def [of "other a"] read_def [of "other a"]
        Let_def buffer_defs take_min_length)
qed

text \<open>
  Claim C5, the theorem at a new pair whose first endpoint writes 3 bytes and is destroyed,
  without and with a close of Write before the destruction.
\<close>

theorem C5_peer_gone_witness:
  "write_stream 4294967295 Second 7 2 [40] 5
       (snd (destroy First (snd (write_stream 4294967295 First 8 2 [10, 20, 30] 3 (pipeStream 65536)))))
     = (Threw BrokenPipeException,
        snd (destroy First (snd (write_stream 4294967295 First 8 2 [10, 20, 30] 3 (pipeStream 65536))))) \<and>
   read Second 7 2 [] 5
       (snd (destroy First (snd (write_stream 4294967295 First 8 2 [10, 20, 30] 3 (pipeStream 65536)))))
     = (Threw BrokenPipeException,
        snd (destroy First (snd (write_stream 4294967295 First 8 2 [10, 20, 30] 3 (pipeStream 65536))))) \<and>
   fst (read Second 7 2 [] 5
       (snd (destroy First (close First WRITE
          (snd (write_stream 4294967295 First 8 2 [10, 20, 30] 3 (pipeStream 65536)))))))
     = Returned (3, [10, 20, 30])"
proof -
  let ?s = "snd (write_stream 4294967295 First 8 2 [10, 20, 30] 3 (pipeStream 65536))"
  let ?c = "close First WRITE ?s"
  have s: "stream ?s First = PipeStream_new 65536"
    "stream ?s Second = (PipeStream_new 65536)\<lparr>m_readBuffer := [10, 20, 30]\<rparr>"
    by (simp_all add: write_stream_def Let_def buffer_defs PipeStream_new_def unspecified_def)
  have c: "stream ?c First = (PipeStream_new 65536)\<lparr>m_closed := WRITE\<rparr>"
    "stream ?c Second = (PipeStream_new 65536)\<lparr>m_readBuffer := [10, 20, 30], m_otherClosed := WRITE\<rparr>"
    by (simp_all add: close_def Let_def s PipeStream_new_def closeOr_def fromBits_def)
  have d1: "destroy First ?s = (Returned (), snd (destroy First ?s))"
    by (simp add: destroy_def Let_def s PipeStream_new_def)
  have d2: "destroy First ?c = (Returned (), snd (destroy First ?c))"
    by (simp add: destroy_def Let_def c PipeStream_new_def)
  have f1: "m_closed (stream (snd (destroy First ?s)) Second) = NONE"
    "m_otherClosed (stream (snd (destroy First ?s)) Second) = NONE"
    by (simp_all add: destroy_frame s PipeStream_new_def)
  have f2: "m_closed (stream (snd (destroy First ?c)) Second) = NONE"
    "m_otherClosed (stream (snd (destroy First ?c)) Second) = WRITE"
    "m_readBuffer (stream (snd (destroy First ?c)) Second) = [10, 20, 30]"
    by (simp_all add: destroy_frame c PipeStream_new_def)
  show ?thesis
    using C5_peer_gone [where size_max = 4294967295 and a = First and s = ?s and ?s1.0 = "snd (destroy First ?s)"
        and cs = "[]" and s' = "snd (destroy First ?s)" and f = 7 and sch = 2
        and b = "[40]" and len = 5]
      C5_peer_gone [where size_max = 4294967295 and a = First and s = ?s and ?s1.0 = "snd (destroy First ?s)"
        and cs = "[]" and s' = "snd (destroy First ?s)" and f = 7 and sch = 2
        and b = "[]" and len = 5]
      C5_peer_gone [where size_max = 4294967295 and a = First and s = ?c and ?s1.0 = "snd (destroy First ?c)"
        and cs = "[]" and s' = "snd (destroy First ?c)" and f = 7 and sch = 2
        and b = "[]" and len = 5] d1 d2
    by (simp add: f1 f2)
qed

text \<open>
  Claim C5 as stated fails: the first endpoint writes 3 bytes and is destroyed; the buffer of
  the second endpoint holds the 3 bytes, and a read on it throws \<open>BrokenPipeException\<close>.
\<close>

theorem C5_buffered_read_counterexample:
  "fst (destroy First (snd (write_stream 4294967295 First 8 2 [10, 20, 30] 3 (pipeStream 65536))))
     = Returned () \<and>
   m_readBuffer (stream (snd (destroy First
       (snd (write_stream 4294967295 First 8 2 [10, 20, 30] 3 (pipeStream 65536))))) Second) = [10, 20, 30] \<and>
   fst (read Second 7 2 [] 3 (snd (destroy First
       (snd (write_stream 4294967295 First 8 2 [10, 20, 30] 3 (pipeStream 65536))))))
     = Threw BrokenPipeException"
  by (simp add: eval_defs)


text \<open>
  Claim C6 (single waiter). A \<open>read\<close> that comes to register the calling fiber while the
  pending reader slot it uses is taken fails the assertion and changes nothing, and so does
  a \<open>write\<close> with the pending writer slot; in particular a second \<open>read\<close> on an endpoint
  after a first one has yielded, and a second \<open>write\<close> of the same length after a first
  one has yielded. No \<open>read\<close> or \<open>write\<close> replaces a registered fiber by another one: a
  slot that holds a fiber holds the same fiber afterwards or is empty.
\<close>

theorem C6_single_waiter:
  "(\<not> includesRead (m_closed (stream s e)) \<longrightarrow> alive (stream s (other e)) \<longrightarrow>
    m_readBuffer (stream s e) = [] \<longrightarrow> \<not> includesWrite (m_otherClosed (stream s e)) \<longrightarrow>
    m_pendingReader (stream s (other e)) = Some g \<longrightarrow>
      read e f sch b len s = (AssertFailed, s)) \<and>
   (\<not> includesWrite (m_closed (stream s e)) \<longrightarrow> alive (stream s (other e)) \<longrightarrow>
    \<not> includesRead (m_closed (stream s (other e))) \<longrightarrow>
    m_bufferSize (stream s e)
      < (length (m_readBuffer (stream s (other e))) + min len (m_bufferSize (stream s e)))
          mod (size_max + 1) \<longrightarrow>
    m_pendingWriter (stream s (other e)) = Some g \<longrightarrow>
      write_stream size_max e f sch b len s = (AssertFailed, s)) \<and>
   (fst (read e f sch b len s) = Yield \<longrightarrow>
      read e f' sch' b' len' (snd (read e f sch b len s))
        = (AssertFailed, snd (read e f sch b len s))) \<and>
   (fst (write_stream size_max e f sch b len s) = Yield \<longrightarrow>
      write_stream size_max e f' sch' b' len (snd (write_stream size_max e f sch b len s))
        = (AssertFailed, snd (write_stream size_max e f sch b len s))) \<and>
   (m_pendingReader (stream s x) = Some g \<longrightarrow>
      m_pendingReader (stream (snd (read e f sch b len s)) x) = Some g \<and>
      m_pendingReader (stream (snd (write_stream size_max e f sch b len s)) x) \<in> {None, Some g}) \<and>
   (m_pendingWriter (stream s x) = Some g \<longrightarrow>
      m_pendingWriter (stream (snd (write_stream size_max e f sch b len s)) x) = Some g \<and>
      m_pendingWriter (stream (snd (read e f sch b len s)) x) \<in> {None, Some g})"
proof -
  have a: "read e f sch b len s = (AssertFailed, s)"
    if "\<not> includesRead (m_closed (stream s e))" "alive (stream s (other e))"
      "m_readBuffer (stream s e) = []" "\<not> includesWrite (m_otherClosed (stream s e))"
      "m_pendingReader (stream s (other e)) = Some g"
    using that by (simp add: read_def Let_def buffer_defs)
  have b: "write_stream size_max e f sch b len s = (AssertFailed, s)"
    if "\<not> includesWrite (m_closed (stream s e))" "alive (stream s (other e))"
      "\<not> includesRead (m_closed (stream s (other e)))"
      "m_bufferSize (stream s e)
         < (length (m_readBuffer (stream s (other e))) + min len (m_bufferSize (stream s e)))
             mod (size_max + 1)"
      "m_pendingWriter (stream s (other e)) = Some g"
    using that by (auto simp add: write_stream_def Let_def buffer_defs min_def split: if_splits)
  have c: "read e f' sch' b' len' (snd (read e f sch b len s))
        = (AssertFailed, snd (read e f sch b len s))"
    if "fst (read e f sch b len s) = Yield"
    using that by (auto simp add: read_def Let_def buffer_defs split: if_splits)
  have d: "write_stream size_max e f' sch' b' len (snd (write_stream size_max e f sch b len s))
        = (AssertFailed, snd (write_stream size_max e f sch b len s))"
    if "fst (write_stream size_max e f sch b len s) = Yield"
    using that by (auto simp add: write_stream_def Let_def buffer_defs split: if_splits)
  have r: "m_pendingReader (stream (snd (read e f sch b len s)) x) = Some g \<and>
      m_pendingReader (stream (snd (write_stream size_max e f sch b len s)) x) \<in> {None, Some g}"
    if "m_pendingReader (stream s x) = Some g"
    using that by (auto simp add: read_def write_stream_def Let_def)
  have w: "m_pendingWriter (stream (snd (write_stream size_max e f sch b len s)) x) = Some g \<and>
      m_pendingWriter (stream (snd (read e f sch b len s)) x) \<in> {None, Some g}"
    if "m_pendingWriter (stream s x) = Some g"
    using that by (auto simp add: read_def write_stream_def Let_def)
  show ?thesis
    using a b c d r w by blast
qed

lemma events_pipeStream [simp]: "events (pipeStream n) = []"
  by (simp add: pipeStream_def Let_def)

text \<open>
  Claim C6, the theorem at a new pair for two reads on the first endpoint, and at a pair of
  capacity 4 that holds 3 bytes for two writes of 3 bytes.
\<close>

theorem C6_single_waiter_witness:
  "fst (read First 7 2 [] 5 (pipeStream 65536)) = Yield \<and>
   read First 8 2 [] 5 (snd (read First 7 2 [] 5 (pipeStream 65536)))
     = (AssertFailed, snd (read First 7 2 [] 5 (pipeStream 65536))) \<and>
   m_pendingReader (stream (snd (read First 7 2 [] 5 (pipeStream 65536))) Second) = Some 7 \<and>
   fst (write_stream 4294967295 First 7 2 [40, 50, 60] 3
          (snd (write_stream 4294967295 First 8 2 [10, 20, 30] 3 (pipeStream 4)))) = Yield \<and>
   fst (write_stream 4294967295 First 9 2 [70, 80, 90] 3
          (snd (write_stream 4294967295 First 7 2 [40, 50, 60] 3
             (snd (write_stream 4294967295 First 8 2 [10, 20, 30] 3 (pipeStream 4)))))) = AssertFailed"
proof -
  let ?r = "snd (read First 7 2 [] 5 (pipeStream 65536))"
  let ?w = "snd (write_stream 4294967295 First 8 2 [10, 20, 30] 3 (pipeStream 4))"
  have y: "fst (read First 7 2 [] 5 (pipeStream 65536)) = Yield"
    "m_pendingReader (stream ?r Second) = Some 7"
    by (simp_all add: eval_defs)
  have w: "stream ?w First = PipeStream_new 4"
    "stream ?w Second = (PipeStream_new 4)\<lparr>m_readBuffer := [10, 20, 30]\<rparr>"
    by (simp_all add: write_stream_def Let_def buffer_defs PipeStream_new_def unspecified_def)
  have y2: "fst (write_stream 4294967295 First 7 2 [40, 50, 60] 3 ?w) = Yield"
    by (simp add: write_stream_def [of _ First 7] Let_def buffer_defs w PipeStream_new_def)
  show ?thesis
    using C6_single_waiter [where size_max = 4294967295 and s = "pipeStream 65536" and e = First and f = 7 and sch = 2
        and b = "[]" and len = 5 and f' = 8 and sch' = 2 and b' = "[]" and len' = 5
        and x = Second and g = 7]
      C6_single_waiter [where size_max = 4294967295 and s = ?w and e = First and f = 7 and sch = 2
        and b = "[40, 50, 60]" and len = 3 and f' = 9 and sch' = 2 and b' = "[70, 80, 90]"
        and len' = 3 and x = Second and g = 7] y y2
    by simp
qed

text \<open>
  Claim C7 (registration slots), amended. There is no asymmetry: a \<open>read\<close> on endpoint
  \<open>e\<close> that yields registers the calling fiber in the pending reader slot of the peer and
  leaves the slot of \<open>e\<close> alone, as a \<open>write\<close> that yields registers in the pending
  writer slot of the peer. A \<open>write\<close> on \<open>e\<close> that returns wakes the fiber in the pending
  reader slot of \<open>e\<close> itself (the slot where a read on the receiving peer registers), and a
  \<open>read\<close> on \<open>e\<close> that returns bytes wakes the fiber in the pending writer slot of \<open>e\<close>
  itself.
\<close>

theorem C7_registration_slots:
  "(fst (read e f sch b len s) = Yield \<longrightarrow>
      m_pendingReader (stream (snd (read e f sch b len s)) (other e)) = Some f \<and>
      m_pendingReaderScheduler (stream (snd (read e f sch b len s)) (other e)) = Scheduler sch \<and>
      m_pendingReader (stream (snd (read e f sch b len s)) e) = m_pendingReader (stream s e)) \<and>
   (fst (write_stream size_max e f sch b len s) = Yield \<longrightarrow>
      m_pendingWriter (stream (snd (write_stream size_max e f sch b len s)) (other e)) = Some f \<and>
      m_pendingWriterScheduler (stream (snd (write_stream size_max e f sch b len s)) (other e))
        = Scheduler sch \<and>
      m_pendingWriter (stream (snd (write_stream size_max e f sch b len s)) e)
        = m_pendingWriter (stream s e)) \<and>
   (fst (write_stream size_max e f sch b len s) = Returned k \<longrightarrow>
    m_pendingReader (stream s e) = Some g \<longrightarrow>
      added s (snd (write_stream size_max e f sch b len s))
        = [Schedule (m_pendingReaderScheduler (stream s e)) g, ResetPendingReader e] \<and>
      m_pendingReader (stream (snd (write_stream size_max e f sch b len s)) e) = None \<and>
      m_pendingReader (stream (snd (write_stream size_max e f sch b len s)) (other e))
        = m_pendingReader (stream s (other e))) \<and>
   (fst (read e f sch b len s) = Returned r \<longrightarrow> m_readBuffer (stream s e) \<noteq> [] \<longrightarrow>
    m_pendingWriter (stream s e) = Some g \<longrightarrow>
      added s (snd (read e f sch b len s))
        = [Schedule (m_pendingWriterScheduler (stream s e)) g, ResetPendingWriter e] \<and>
      m_pendingWriter (stream (snd (read e f sch b len s)) e) = None \<and>
      m_pendingWriter (stream (snd (read e f sch b len s)) (other e))
        = m_pendingWriter (stream s (other e)))"
proof -
  have a: "m_pendingReader (stream (snd (read e f sch b len s)) (other e)) = Some f \<and>
      m_pendingReaderScheduler (stream (snd (read e f sch b len s)) (other e)) = Scheduler sch \<and>
      m_pendingReader (stream (snd (read e f sch b len s)) e) = m_pendingReader (stream s e)"
    if "fst (read e f sch b len s) = Yield"
    using that by (auto simp add: read_def Let_def split: if_splits)
  have b: "m_pendingWriter (stream (snd (write_stream size_max e f sch b len s)) (other e)) = Some f \<and>
      m_pendingWriterScheduler (stream (snd (write_stream size_max e f sch b len s)) (other e))
        = Scheduler sch \<and>
      m_pendingWriter (stream (snd (write_stream size_max e f sch b len s)) e)
        = m_pendingWriter (stream s e)"
    if "fst (write_stream size_max e f sch b len s) = Yield"
    using that by (auto simp add: write_stream_def Let_def split: if_splits)
  have c: "added s (snd (write_stream size_max e f sch b len s))
        = [Schedule (m_pendingReaderScheduler (stream s e)) g, ResetPendingReader e] \<and>
      m_pendingReader (stream (snd (write_stream size_max e f sch b len s)) e) = None \<and>
      m_pendingReader (stream (snd (write_stream size_max e f sch b len s)) (other e))
        = m_pendingReader (stream s (other e))"
    if "fst (write_stream size_max e f sch b len s) = Returned k" "m_pendingReader (stream s e) = Some g"
    using that
    by (auto simp add: write_stream_def Let_def events_scheduleAndResetReader split: if_splits)
  have d: "added s (snd (read e f sch b len s))
        = [Schedule (m_pendingWriterScheduler (stream s e)) g, ResetPendingWriter e] \<and>
      m_pendingWriter (stream (snd (read e f sch b len s)) e) = None \<and>
      m_pendingWriter (stream (snd (read e f sch b len s)) (other e))
        = m_pendingWriter (stream s (other e))"
    if "fst (read e f sch b len s) = Returned r" "m_readBuffer (stream s e) \<noteq> []"
      "m_pendingWriter (stream s e) = Some g"
    using that
    by (auto simp add: read_def Let_def buffer_defs events_scheduleAndResetWriter
        split: if_splits)
  show ?thesis
    using a b c d by blast
qed

text \<open>
  Claim C7, the theorem at a new pair: a read on the second endpoint registers fiber 7 on the
  first endpoint, and a write on the first endpoint wakes it from there.
\<close>

theorem C7_registration_slots_witness:
  "fst (read Second 7 2 [] 5 (pipeStream 65536)) = Yield \<and>
   m_pendingReader (stream (snd (read Second 7 2 [] 5 (pipeStream 65536))) First) = Some 7 \<and>
   m_pendingReader (stream (snd (read Second 7 2 [] 5 (pipeStream 65536))) Second) = None \<and>
   fst (write_stream 4294967295 First 8 2 [10, 20, 30] 3 (snd (read Second 7 2 [] 5 (pipeStream 65536))))
     = Returned 3 \<and>
   added (snd (read Second 7 2 [] 5 (pipeStream 65536)))
     (snd (write_stream 4294967295 First 8 2 [10, 20, 30] 3 (snd (read Second 7 2 [] 5 (pipeStream 65536)))))
     = [Schedule (Scheduler 2) 7, ResetPendingReader First]"
proof -
  let ?r = "snd (read Second 7 2 [] 5 (pipeStream 65536))"
  have y: "fst (read Second 7 2 [] 5 (pipeStream 65536)) = Yield"
    by (simp add: eval_defs)
  have r: "stream ?r First = (PipeStream_new 65536)
             \<lparr>m_pendingReader := Some 7, m_pendingReaderScheduler := Scheduler 2\<rparr>"
    "stream ?r Second = PipeStream_new 65536"
    by (simp_all add: read_def Let_def buffer_defs PipeStream_new_def unspecified_def)
  have w: "fst (write_stream 4294967295 First 8 2 [10, 20, 30] 3 ?r) = Returned 3"
    by (simp add: write_stream_def [of _ First 8] Let_def buffer_defs r PipeStream_new_def)
  show ?thesis
    using C7_registration_slots [where size_max = 4294967295 and e = Second and f = 7 and sch = 2 and b = "[]"
        and len = 5 and s = "pipeStream 65536"]
      C7_registration_slots [where size_max = 4294967295 and e = First and f = 8 and sch = 2 and b = "[10, 20, 30]"
        and len = 3 and s = ?r and k = 3 and g = 7] y w
    by (simp add: r PipeStream_new_def)
qed

text \<open>
  Claim C7 as stated fails: a read on the first endpoint of a new pair yields, the pending
  reader slot of the first endpoint stays empty and the slot of the second holds the fiber.
\<close>

theorem C7_read_registers_on_peer_counterexample:
  "fst (read First 7 2 [] 5 (pipeStream 65536)) = Yield \<and>
   m_pendingReader (stream (snd (read First 7 2 [] 5 (pipeStream 65536))) First) = None \<and>
   m_pendingReader (stream (snd (read First 7 2 [] 5 (pipeStream 65536))) Second) = Some 7"
  by (simp add: eval_defs)

text \<open>
  Claim C8 (order of waking), amended. Every method that wakes a pending fiber (\<open>read\<close>,
  \<open>write\<close>, \<open>close\<close>, the destructor) first calls \<open>schedule\<close> on the fiber held in the
  slot and then resets the slot, both in the same critical section, so that the slot is empty
  when the method ends; \<open>flush\<close> wakes nobody.
\<close>

theorem C8_schedule_then_reset:
  "wokenInOrder s (snd (read e f sch b len s)) \<and>
   wokenInOrder s (snd (write_stream size_max e f sch b len s)) \<and>
   wokenInOrder s (snd (flush e f sch s)) \<and>
   wokenInOrder s (close e type s) \<and>
   wokenInOrder s (snd (destroy e s))"
  by (simp add: wokenInOrder_read wokenInOrder_write wokenInOrder_flush wokenInOrder_close
      wokenInOrder_destroy)

text \<open>
  Claim C8, the theorem at a pair of capacity 4 with a pending writer: the read that wakes it
  schedules fiber 7 and then resets the slot.
\<close>

theorem C8_schedule_then_reset_witness:
  "scheduleThenReset
     (snd (write_stream 4294967295 First 7 2 [40, 50, 60] 3
        (snd (write_stream 4294967295 First 8 2 [10, 20, 30] 3 (pipeStream 4)))))
     (added (snd (write_stream 4294967295 First 7 2 [40, 50, 60] 3
               (snd (write_stream 4294967295 First 8 2 [10, 20, 30] 3 (pipeStream 4)))))
        (snd (read Second 9 2 [] 2
               (snd (write_stream 4294967295 First 7 2 [40, 50, 60] 3
                  (snd (write_stream 4294967295 First 8 2 [10, 20, 30] 3 (pipeStream 4))))))))"
  using C8_schedule_then_reset [where size_max = 4294967295 and s = "snd (write_stream 4294967295 First 7 2 [40, 50, 60] 3
        (snd (write_stream 4294967295 First 8 2 [10, 20, 30] 3 (pipeStream 4))))"
      and e = Second and f = 9 and sch = 2 and b = "[]" and len = 2]
  by (simp add: wokenInOrder_def)

text \<open>
  Claim C8 as stated fails: with fiber 7 in the pending writer slot of the second endpoint, a
  read on that endpoint first calls \<open>schedule\<close> and only then resets the slot.
\<close>

theorem C8_schedule_first_counterexample:
  "m_pendingWriter (stream (snd (write_stream 4294967295 First 7 2 [40, 50, 60] 3
       (snd (write_stream 4294967295 First 8 2 [10, 20, 30] 3 (pipeStream 4))))) Second) = Some 7 \<and>
   events (snd (read Second 9 2 [] 2
       (snd (write_stream 4294967295 First 7 2 [40, 50, 60] 3
          (snd (write_stream 4294967295 First 8 2 [10, 20, 30] 3 (pipeStream 4)))))))
     = [Schedule (Scheduler 2) 7, ResetPendingWriter Second]"
proof -
  let ?w = "snd (write_stream 4294967295 First 8 2 [10, 20, 30] 3 (pipeStream 4))"
  let ?y = "snd (write_stream 4294967295 First 7 2 [40, 50, 60] 3 ?w)"
  have w: "stream ?w First = PipeStream_new 4"
    "stream ?w Second = (PipeStream_new 4)\<lparr>m_readBuffer := [10, 20, 30]\<rparr>"
    "events ?w = []"
    by (simp_all add: write_stream_def Let_def buffer_defs PipeStream_new_def unspecified_def)
  have y: "stream ?y First = PipeStream_new 4"
    "stream ?y Second = (PipeStream_new 4)\<lparr>m_readBuffer := [10, 20, 30],
        m_pendingWriterScheduler := Scheduler 2, m_pendingWriter := Some 7\<rparr>"
    "events ?y = []"
    by (simp_all add: write_stream_def [of _ First 7] Let_def buffer_defs w PipeStream_new_def)
  have "events (snd (read Second 9 2 [] 2 ?y)) = [Schedule (Scheduler 2) 7, ResetPendingWriter Second]"
    by (simp add: read_def [of Second 9] Let_def buffer_defs y PipeStream_new_def
        events_scheduleAndResetWriter)
  then show ?thesis by (simp add: y)
qed

end
